theory Spec2Isabelle
  imports Main "HOL-Library.AList"
begin

section \<open>Library functions the program calls\<close>

text \<open>
  The program is a single Go package that exists in two revisions: \<^verbatim>\<open>main.go\<close> and a
  second, later source file that adds a YAML model map and sub-commands.  Functions
  of the second revision that differ from \<^verbatim>\<open>main.go\<close> carry the suffix \<open>_r2\<close>.
  Go strings are byte strings, modelled as \<^typ>\<open>string\<close>.  Go's \<^verbatim>\<open>error\<close> is an
  \<^typ>\<open>string option\<close>: \<open>None\<close> is \<^verbatim>\<open>nil\<close>, \<open>Some msg\<close> an error with that message.
\<close>

type_synonym error = "string option"

subsection \<open>Package strings\<close>

definition HasSuffix :: "string \<Rightarrow> string \<Rightarrow> bool" where
  "HasSuffix s suffix =
     (length suffix \<le> length s \<and> drop (length s - length suffix) s = suffix)"

definition TrimSuffix :: "string \<Rightarrow> string \<Rightarrow> string" where
  "TrimSuffix s suffix =
     (if HasSuffix s suffix then take (length s - length suffix) s else s)"

definition HasPrefix :: "string \<Rightarrow> string \<Rightarrow> bool" where
  "HasPrefix s pre = (take (length pre) s = pre)"

definition TrimPrefix :: "string \<Rightarrow> string \<Rightarrow> string" where
  "TrimPrefix s pre = (if HasPrefix s pre then drop (length pre) s else s)"

text \<open>\<^verbatim>\<open>strings.Trim(s, cutset)\<close>: all leading and trailing bytes of \<open>cutset\<close> removed.\<close>

definition Trim :: "string \<Rightarrow> string \<Rightarrow> string" where
  "Trim s cutset =
     rev (dropWhile (\<lambda>c. c \<in> set cutset) (rev (dropWhile (\<lambda>c. c \<in> set cutset) s)))"

text \<open>
  \<^verbatim>\<open>strings.ToLower\<close>: in a string of ASCII bytes the letters A to Z are mapped to a to
  z and every other byte is kept.  Any other string goes through Go's Unicode tables,
  which are a parameter here (\<open>unicodeLower\<close>).
\<close>

definition isASCII :: "char \<Rightarrow> bool" where
  "isASCII c = (of_char c < (128 :: nat))"

definition toLowerByte :: "char \<Rightarrow> char" where
  "toLowerByte c =
     (let n = (of_char c :: nat) in if 65 \<le> n \<and> n \<le> 90 then char_of (n + 32) else c)"

definition ToLower :: "(string \<Rightarrow> string) \<Rightarrow> string \<Rightarrow> string" where
  "ToLower unicodeLower s =
     (if list_all isASCII s then map toLowerByte s else unicodeLower s)"

text \<open>\<^verbatim>\<open>strings.Join(elems, "/")\<close>.\<close>

fun joinSep :: "string list \<Rightarrow> string" where
  "joinSep [] = []"
| "joinSep [e] = e"
| "joinSep (e # es) = e @ CHR ''/'' # joinSep es"

subsection \<open>Package path/filepath (Unix: the separator is the slash, no volume names)\<close>

definition IsPathSeparator :: "char \<Rightarrow> bool" where
  "IsPathSeparator c = (c = CHR ''/'')"

text \<open>The elements of a path: the pieces between separators, empty ones included.\<close>

fun splitSep :: "string \<Rightarrow> string list" where
  "splitSep [] = [] # []"
| "splitSep (c # cs) =
     (if IsPathSeparator c then [] # splitSep cs
      else (case splitSep cs of
              [] \<Rightarrow> [c] # []
            | e # es \<Rightarrow> (c # e) # es))"

text \<open>
  \<^verbatim>\<open>filepath.Clean\<close> processes the elements from left to right and keeps the output
  elements: an empty element and \<^verbatim>\<open>.\<close> are dropped; \<^verbatim>\<open>..\<close> removes the last output
  element when that is a real name, is dropped at the root of a rooted path, and is
  kept otherwise; any other element is appended.  An empty result is \<^verbatim>\<open>.\<close>.
\<close>

definition cleanStep :: "bool \<Rightarrow> string list \<Rightarrow> string \<Rightarrow> string list" where
  "cleanStep rooted out e =
     (if e = [] then out
      else if e = ''.'' then out
      else if e = ''..'' then
        (if out = [] then (if rooted then out else out @ [''..''])
         else if last out = ''..'' then out @ [''..'']
         else butlast out)
      else out @ [e])"

definition Clean :: "string \<Rightarrow> string" where
  "Clean path =
     (if path = [] then ''.''
      else
        let rooted = IsPathSeparator (hd path);
            out = joinSep (foldl (cleanStep rooted) [] (splitSep path))
        in if rooted then CHR ''/'' # out
           else if out = [] then ''.''
           else out)"

text \<open>
  \<^verbatim>\<open>filepath.Join\<close>: the elements from the first non-empty one on are joined with
  slashes and the result is cleaned; when every element is empty the result is empty.
\<close>

definition Join :: "string list \<Rightarrow> string" where
  "Join elem =
     (let rest = dropWhile (\<lambda>e. e = []) elem
      in if rest = [] then [] else Clean (joinSep rest))"

text \<open>
  \<^verbatim>\<open>filepath.Base\<close>: the last element of the path, trailing slashes removed first;
  \<^verbatim>\<open>.\<close> for the empty path and \<^verbatim>\<open>/\<close> for a path of slashes only.
\<close>

definition Base :: "string \<Rightarrow> string" where
  "Base path =
     (if path = [] then ''.''
      else
        let stripped = rev (dropWhile IsPathSeparator (rev path));
            elem = rev (takeWhile (\<lambda>c. \<not> IsPathSeparator c) (rev stripped))
        in if elem = [] then ''/'' else elem)"

text \<open>
  \<^verbatim>\<open>filepath.Ext\<close>: the suffix beginning at the final dot of the final element, empty
  when that element has no dot.
\<close>

definition Ext :: "string \<Rightarrow> string" where
  "Ext path =
     (let final = takeWhile (\<lambda>c. \<not> IsPathSeparator c) (rev path)
      in if CHR ''.'' \<in> set final
         then CHR ''.'' # rev (takeWhile (\<lambda>c. c \<noteq> CHR ''.'') final)
         else [])"

subsection \<open>Package regexp, for the patterns the program compiles\<close>

text \<open>
  Every pattern of the program is a fixed sequence of one-byte matchers: a literal
  byte or \<^verbatim>\<open>\d\<close> (an ASCII digit), with \<^verbatim>\<open>\d{n}\<close> written out \<open>n\<close> times.  A
  capture group is the span of matchers it encloses, given as (offset, length).
\<close>

datatype atom = Byte char | Digit

record regex =
  atoms :: "atom list"
  groups :: "(nat \<times> nat) list"

definition isDigit :: "char \<Rightarrow> bool" where
  "isDigit c = (let n = (of_char c :: nat) in 48 \<le> n \<and> n \<le> 57)"

fun atomMatches :: "atom \<Rightarrow> char \<Rightarrow> bool" where
  "atomMatches (Byte b) c = (c = b)"
| "atomMatches Digit c = isDigit c"

fun matchHere :: "atom list \<Rightarrow> string \<Rightarrow> bool" where
  "matchHere [] s = True"
| "matchHere (a # as) [] = False"
| "matchHere (a # as) (c # cs) = (atomMatches a c \<and> matchHere as cs)"

text \<open>The text of the leftmost match, if there is one.\<close>

fun findFirst :: "atom list \<Rightarrow> string \<Rightarrow> string option" where
  "findFirst as [] = (if matchHere as [] then Some [] else None)"
| "findFirst as (c # cs) =
     (if matchHere as (c # cs) then Some (take (length as) (c # cs))
      else findFirst as cs)"

text \<open>
  \<^verbatim>\<open>FindStringSubmatch\<close>: \<^verbatim>\<open>nil\<close> (the empty list) without a match, otherwise the
  matched text followed by the text of each capture group.
\<close>

definition FindStringSubmatch :: "regex \<Rightarrow> string \<Rightarrow> string list" where
  "FindStringSubmatch re s =
     (case findFirst (atoms re) s of
        None \<Rightarrow> []
      | Some m \<Rightarrow> m # map (\<lambda>(i, n). take n (drop i m)) (groups re))"

subsection \<open>Package strconv\<close>

definition digitVal :: "char \<Rightarrow> int" where
  "digitVal c = int (of_char c) - 48"

definition decimalValue :: "string \<Rightarrow> int" where
  "decimalValue ds = foldl (\<lambda>a c. 10 * a + digitVal c) 0 ds"

text \<open>
  \<^verbatim>\<open>strconv.ParseInt(s, 10, 64)\<close>: an optional sign and at least one digit, nothing else;
  a value outside the 64-bit range is an error, reported with the nearest bound.
\<close>

definition ParseInt :: "string \<Rightarrow> int \<times> error" where
  "ParseInt s =
     (let neg = (s \<noteq> [] \<and> hd s = CHR ''-'');
          ds = (if s \<noteq> [] \<and> (hd s = CHR ''-'' \<or> hd s = CHR ''+'') then tl s else s)
      in if ds = [] then (0, Some ''invalid syntax'')
         else if list_ex (\<lambda>c. \<not> isDigit c) ds then (0, Some ''invalid syntax'')
         else
           let v = (if neg then - decimalValue ds else decimalValue ds)
           in if v < - (2 ^ 63) then (- (2 ^ 63), Some ''value out of range'')
              else if 2 ^ 63 \<le> v then (2 ^ 63 - 1, Some ''value out of range'')
              else (v, None))"

subsection \<open>Package time\<close>

text \<open>
  A \<^verbatim>\<open>time.Time\<close> is modelled by the calendar fields that \<^verbatim>\<open>Format\<close> reads, in the
  time's own location.  The zero value \<^verbatim>\<open>Time{}\<close> is 1 January of year 1, 00:00:00.
\<close>

record Time =
  Year :: int
  Month :: int
  Day :: int
  Hour :: int
  Minute :: int
  Second :: int

definition zeroTime :: Time where
  "zeroTime = \<lparr>Year = 1, Month = 1, Day = 1, Hour = 0, Minute = 0, Second = 0\<rparr>"

text \<open>
  The calendar fields of a count of seconds since 1970-01-01 00:00:00 in the
  proleptic Gregorian calendar (days are split into 400-year eras that start on
  1 March).
\<close>

definition civilOfSeconds :: "int \<Rightarrow> Time" where
  "civilOfSeconds s =
     (let days = s div 86400;
          rem = s mod 86400;
          z = days + 719468;
          era = z div 146097;
          doe = z mod 146097;
          yoe = (doe - doe div 1460 + doe div 36524 - doe div 146096) div 365;
          doy = doe - (365 * yoe + yoe div 4 - yoe div 100);
          mp = (5 * doy + 2) div 153;
          d = doy - (153 * mp + 2) div 5 + 1;
          m = (if mp < 10 then mp + 3 else mp - 9);
          y = yoe + era * 400 + (if m \<le> 2 then 1 else 0)
      in \<lparr>Year = y, Month = m, Day = d,
          Hour = rem div 3600, Minute = (rem mod 3600) div 60, Second = rem mod 60\<rparr>)"

text \<open>
  \<^verbatim>\<open>time.Unix(sec, 0)\<close> is a time in the local zone; \<open>zone\<close> gives the zone's offset
  from UTC, in seconds, at an instant.
\<close>

definition Unix :: "(int \<Rightarrow> int) \<Rightarrow> int \<Rightarrow> Time" where
  "Unix zone sec = civilOfSeconds (sec + zone sec)"

text \<open>The layouts of the program, cut into the pieces \<^verbatim>\<open>Format\<close> and \<^verbatim>\<open>Parse\<close> see.\<close>

datatype chunk =
  Lit string | stdLongYear | stdZeroMonth | stdZeroDay | stdHour | stdZeroMinute | stdZeroSecond

fun decimal :: "nat \<Rightarrow> string" where
  "decimal n =
     (if n < 10 then [char_of (48 + n)]
      else decimal (n div 10) @ [char_of (48 + n mod 10)])"

declare decimal.simps [simp del]

text \<open>\<^verbatim>\<open>appendInt\<close>: a minus sign for a negative number, then the digits zero-padded to the width.\<close>

definition appendInt :: "int \<Rightarrow> nat \<Rightarrow> string" where
  "appendInt x width =
     (let ds = decimal (nat \<bar>x\<bar>);
          padded = replicate (width - length ds) (CHR ''0'') @ ds
      in if x < 0 then CHR ''-'' # padded else padded)"

fun formatChunk :: "Time \<Rightarrow> chunk \<Rightarrow> string" where
  "formatChunk t (Lit s) = s"
| "formatChunk t stdLongYear = appendInt (Year t) 4"
| "formatChunk t stdZeroMonth = appendInt (Month t) 2"
| "formatChunk t stdZeroDay = appendInt (Day t) 2"
| "formatChunk t stdHour = appendInt (Hour t) 2"
| "formatChunk t stdZeroMinute = appendInt (Minute t) 2"
| "formatChunk t stdZeroSecond = appendInt (Second t) 2"

definition Format :: "Time \<Rightarrow> chunk list \<Rightarrow> string" where
  "Format t layout = concat (map (formatChunk t) layout)"

text \<open>\<^verbatim>\<open>getnum\<close>: a two-digit number, or a one-digit number unless two digits are required.\<close>

definition getnum :: "string \<Rightarrow> bool \<Rightarrow> (int \<times> string) option" where
  "getnum s fixed =
     (case s of
        [] \<Rightarrow> None
      | a # r \<Rightarrow>
          if \<not> isDigit a then None
          else (case r of
                  [] \<Rightarrow> (if fixed then None else Some (digitVal a, r))
                | b # r' \<Rightarrow>
                    if \<not> isDigit b then (if fixed then None else Some (digitVal a, r))
                    else Some (digitVal a * 10 + digitVal b, r')))"

definition cutspace :: "string \<Rightarrow> string" where
  "cutspace s = dropWhile (\<lambda>c. c = CHR '' '') s"

text \<open>
  \<^verbatim>\<open>skip\<close>: the literal text between two layout fields must stand in the value; a
  space of the layout stands for any run of spaces.
\<close>

function skip :: "string \<Rightarrow> string \<Rightarrow> string option" where
  "skip v [] = Some v"
| "skip v (p # ps) =
     (if p = CHR '' '' then
        (if v \<noteq> [] \<and> hd v \<noteq> CHR '' '' then None
         else skip (cutspace v) (cutspace ps))
      else if v = [] then None
      else if hd v \<noteq> p then None
      else skip (tl v) ps)"
  by pat_completeness auto
termination
  by (relation "measure (\<lambda>(v, p). length p)")
     (auto simp: cutspace_def intro: le_imp_less_Suc length_dropWhile_le)

definition isLeap :: "int \<Rightarrow> bool" where
  "isLeap y = (if y mod 4 = 0 then (if y mod 100 = 0 then y mod 400 = 0 else True) else False)"

definition daysIn :: "int \<Rightarrow> int \<Rightarrow> int" where
  "daysIn m y =
     (if m = 2 then (if isLeap y then 29 else 28)
      else if m = 4 then 30 else if m = 6 then 30 else if m = 9 then 30 else if m = 11 then 30
      else 31)"

definition commaOrPeriod :: "char \<Rightarrow> bool" where
  "commaOrPeriod c = (if c = CHR ''.'' then True else c = CHR '','')"

text \<open>
  One step of \<^verbatim>\<open>Parse\<close>: the literal text is skipped, a field is read and checked
  against its range.  A year is exactly four digits; the hour may have one digit;
  after the seconds a fraction that the layout does not mention is read and dropped.
\<close>

fun parseChunk :: "chunk \<Rightarrow> Time \<times> string \<Rightarrow> (Time \<times> string) option" where
  "parseChunk (Lit p) (t, v) =
     (case skip v p of None \<Rightarrow> None | Some v' \<Rightarrow> Some (t, v'))"
| "parseChunk stdLongYear (t, v) =
     (if length v < 4 then None
      else if list_ex (\<lambda>c. \<not> isDigit c) (take 4 v) then None
      else Some (t\<lparr>Year := decimalValue (take 4 v)\<rparr>, drop 4 v))"
| "parseChunk stdZeroMonth (t, v) =
     (case getnum v True of
        None \<Rightarrow> None
      | Some (n, v') \<Rightarrow> if n \<le> 0 then None else if 12 < n then None
                        else Some (t\<lparr>Month := n\<rparr>, v'))"
| "parseChunk stdZeroDay (t, v) =
     (case getnum v True of
        None \<Rightarrow> None
      | Some (n, v') \<Rightarrow> Some (t\<lparr>Day := n\<rparr>, v'))"
| "parseChunk stdHour (t, v) =
     (case getnum v False of
        None \<Rightarrow> None
      | Some (n, v') \<Rightarrow> if 24 \<le> n then None else Some (t\<lparr>Hour := n\<rparr>, v'))"
| "parseChunk stdZeroMinute (t, v) =
     (case getnum v True of
        None \<Rightarrow> None
      | Some (n, v') \<Rightarrow> if 60 \<le> n then None else Some (t\<lparr>Minute := n\<rparr>, v'))"
| "parseChunk stdZeroSecond (t, v) =
     (case getnum v True of
        None \<Rightarrow> None
      | Some (n, v') \<Rightarrow>
          if 60 \<le> n then None
          else
            (case v' of
               a # b # r \<Rightarrow>
                 if commaOrPeriod a \<and> isDigit b
                 then Some (t\<lparr>Second := n\<rparr>, dropWhile isDigit r)
                 else Some (t\<lparr>Second := n\<rparr>, v')
             | _ \<Rightarrow> Some (t\<lparr>Second := n\<rparr>, v')))"

fun parseChunks :: "chunk list \<Rightarrow> Time \<times> string \<Rightarrow> (Time \<times> string) option" where
  "parseChunks [] tv = Some tv"
| "parseChunks (c # cs) tv =
     (case parseChunk c tv of None \<Rightarrow> None | Some tv' \<Rightarrow> parseChunks cs tv')"

text \<open>
  \<^verbatim>\<open>time.Parse(layout, value)\<close>: every failure (a field that does not parse or is out
  of range, text left over, a day the month does not have) returns \<^verbatim>\<open>Time{}\<close> and
  an error.  The layouts of the program name no zone, so a parsed time is in UTC and
  its calendar fields are the parsed ones.
\<close>

definition Parse :: "chunk list \<Rightarrow> string \<Rightarrow> Time \<times> error" where
  "Parse layout value =
     (case parseChunks layout
             (\<lparr>Year = 0, Month = - 1, Day = - 1, Hour = 0, Minute = 0, Second = 0\<rparr>, value) of
        None \<Rightarrow> (zeroTime, Some ''parsing time'')
      | Some (t, rest) \<Rightarrow>
          if rest \<noteq> [] then (zeroTime, Some ''parsing time: extra text'')
          else if Day t < 1 then (zeroTime, Some ''parsing time: day out of range'')
          else if daysIn (Month t) (Year t) < Day t
          then (zeroTime, Some ''parsing time: day out of range'')
          else (t, None))"

text \<open>
  \<^verbatim>\<open>strings.TrimSpace\<close>: from a string of ASCII bytes the leading and trailing tab,
  newline, vertical tab, form feed, carriage return and space are removed.  Any other
  string is trimmed with Go's Unicode tables, a parameter here (\<open>unicodeTrim\<close>).
\<close>

definition isSpace :: "char \<Rightarrow> bool" where
  "isSpace c = (of_char c \<in> {9, 10, 11, 12, 13, 32 :: nat})"

definition TrimSpace :: "(string \<Rightarrow> string) \<Rightarrow> string \<Rightarrow> string" where
  "TrimSpace unicodeTrim s =
     (if list_all isASCII s then rev (dropWhile isSpace (rev (dropWhile isSpace s)))
      else unicodeTrim s)"

text \<open>\<^verbatim>\<open>filepath.Dir\<close>: everything up to the final separator, cleaned.\<close>

definition Dir :: "string \<Rightarrow> string" where
  "Dir path = Clean (rev (dropWhile (\<lambda>c. \<not> IsPathSeparator c) (rev path)))"

text \<open>Reading a Go map: the zero value for a missing key.\<close>

definition mapGet :: "('k \<rightharpoonup> string) \<Rightarrow> 'k \<Rightarrow> string" where
  "mapGet m k = (case m k of None \<Rightarrow> [] | Some v \<Rightarrow> v)"


section \<open>The operating system and the run-time system\<close>

text \<open>
  Everything outside the program is a parameter: a world \<open>'w\<close> and the operations on
  it.  An operation that can change the world returns the new one.  Each operation
  may fail or succeed in any way, so a theorem about every \<open>system\<close> covers every
  combination of failures.
\<close>

datatype statResult = StatOk | StatNotExist | StatError

text \<open>One call of the function that \<^verbatim>\<open>filepath.WalkDir\<close> is given.\<close>

record walkEntry =
  wPath :: string
  wName :: string
  wIsDir :: bool
  wErr :: error

record configFile =
  ModelMap :: "string \<rightharpoonup> string"

record 'w system =
  os_Stat :: "'w \<Rightarrow> string \<Rightarrow> statResult"
  os_Open :: "'w \<Rightarrow> string \<Rightarrow> error"
  exif_Decode :: "'w \<Rightarrow> string \<Rightarrow> (string \<rightharpoonup> string) option"
  time_Now :: "'w \<Rightarrow> int"
  time_Local :: "int \<Rightarrow> int"
  rangeRegexTime :: "'w \<Rightarrow> (regex \<times> chunk list) list"
  rangeMap :: "'w \<Rightarrow> (string \<times> string) list \<Rightarrow> (string \<times> string) list"
  filepath_WalkDir :: "'w \<Rightarrow> string \<Rightarrow> walkEntry list"
  os_MkdirAll :: "'w \<Rightarrow> string \<Rightarrow> error \<times> 'w"
  os_Rename :: "'w \<Rightarrow> string \<Rightarrow> string \<Rightarrow> error \<times> 'w"
  os_Create :: "'w \<Rightarrow> string \<Rightarrow> error \<times> 'w"
  io_Copy :: "'w \<Rightarrow> string \<Rightarrow> string \<Rightarrow> error \<times> 'w"
  file_Sync :: "'w \<Rightarrow> string \<Rightarrow> error \<times> 'w"
  os_ReadFile :: "'w \<Rightarrow> string \<Rightarrow> string \<times> error"
  yaml_Unmarshal :: "string \<Rightarrow> configFile \<Rightarrow> configFile option"
  unicode_ToLower :: "string \<Rightarrow> string"
  unicode_TrimSpace :: "string \<Rightarrow> string"

text \<open>
  \<^item> \<open>os_Stat\<close>: \<^verbatim>\<open>os.Stat\<close> succeeds, fails with an error that \<^verbatim>\<open>os.IsNotExist\<close>
    accepts, or fails otherwise.
  \<^item> \<open>exif_Decode\<close>: \<^verbatim>\<open>exif.Decode\<close> on the opened file; \<open>None\<close> is its error,
    otherwise each tag that \<^verbatim>\<open>Get\<close> finds is mapped to the text that the tag's
    \<^verbatim>\<open>String\<close> method returns.
  \<^item> \<open>time_Now\<close>: the clock, in seconds since 1970; \<open>time_Local\<close>: the local zone's
    offset from UTC at an instant.
  \<^item> \<open>rangeRegexTime\<close>: the entries of the map \<^verbatim>\<open>regexTime\<close> in the order in which a
    \<^verbatim>\<open>range\<close> loop visits them this time; Go leaves this order unspecified and
    varies it from one loop to the next.  \<open>rangeMap\<close>: the same for the plan.
  \<^item> \<open>filepath_WalkDir\<close>: the calls \<^verbatim>\<open>WalkDir\<close> makes for a root, in order.
  \<^item> \<open>yaml_Unmarshal\<close>: \<open>None\<close> is an error of \<^verbatim>\<open>yaml.Unmarshal\<close>.
  \<^item> \<open>unicode_ToLower\<close>, \<open>unicode_TrimSpace\<close>: what \<^verbatim>\<open>strings.ToLower\<close> and
    \<^verbatim>\<open>strings.TrimSpace\<close> return for a string that is not ASCII.
\<close>

text \<open>How a call ends: it returns, or the process exits in \<^verbatim>\<open>log.Fatal\<close>, or it panics.\<close>

datatype 'a outcome = Returns 'a | Fatal | Panics

section \<open>The program\<close>

subsection \<open>Package-level constants and variables\<close>

text \<open>\<^verbatim>\<open>const layout = "2006:01:02 15:04:05"\<close>\<close>

definition layout :: "chunk list" where
  "layout = [stdLongYear, Lit '':'', stdZeroMonth, Lit '':'', stdZeroDay, Lit '' '',
             stdHour, Lit '':'', stdZeroMinute, Lit '':'', stdZeroSecond]"


text \<open>The layouts \<^verbatim>\<open>"2006"\<close>, \<^verbatim>\<open>"01"\<close> and \<^verbatim>\<open>"20060102150405"\<close> given to \<^verbatim>\<open>Format\<close>.\<close>

definition layoutYear :: "chunk list" where
  "layoutYear = [stdLongYear]"

definition layoutMonth :: "chunk list" where
  "layoutMonth = [stdZeroMonth]"

definition layoutStamp :: "chunk list" where
  "layoutStamp = [stdLongYear, stdZeroMonth, stdZeroDay, stdHour, stdZeroMinute, stdZeroSecond]"




text \<open>\<^verbatim>\<open>main.go\<close> only: the built-in alias map.\<close>

definition modelAliasMap :: "string \<rightharpoonup> string" where
  "modelAliasMap = map_of [(''2304FPN6DC'', ''Xiaomi13Ultra''), (''22021211RC'', ''RedmiK40S'')]"

text \<open>
  \<^verbatim>\<open>regexTime\<close>, "time regex to time layout", in the order of its declaration:
  \<^verbatim>\<open>\d{8}_\d{6}\<close> with \<^verbatim>\<open>20060102_150405\<close>, and
  \<^verbatim>\<open>\d{4}-\d{2}-\d{2} \d{2}\.\d{2}\.\d{2}\<close> with \<^verbatim>\<open>2006-01-02 15.04.05\<close>.
\<close>

definition regexUnderscore :: regex where
  "regexUnderscore =
     \<lparr>atoms = replicate 8 Digit @ [Byte (CHR ''_'')] @ replicate 6 Digit, groups = []\<rparr>"

definition layoutUnderscore :: "chunk list" where
  "layoutUnderscore =
     [stdLongYear, stdZeroMonth, stdZeroDay, Lit ''_'', stdHour, stdZeroMinute, stdZeroSecond]"

definition regexDashed :: regex where
  "regexDashed =
     \<lparr>atoms = replicate 4 Digit @ [Byte (CHR ''-'')] @ replicate 2 Digit @ [Byte (CHR ''-'')]
              @ replicate 2 Digit @ [Byte (CHR '' '')] @ replicate 2 Digit @ [Byte (CHR ''.'')]
              @ replicate 2 Digit @ [Byte (CHR ''.'')] @ replicate 2 Digit,
      groups = []\<rparr>"

definition layoutDashed :: "chunk list" where
  "layoutDashed =
     [stdLongYear, Lit ''-'', stdZeroMonth, Lit ''-'', stdZeroDay, Lit '' '',
      stdHour, Lit ''.'', stdZeroMinute, Lit ''.'', stdZeroSecond]"

definition regexTime :: "(regex \<times> chunk list) list" where
  "regexTime = [(regexUnderscore, layoutUnderscore), (regexDashed, layoutDashed)]"

text \<open>The pattern \<^verbatim>\<open>mmexport(1\d{9})\<close> of \<^verbatim>\<open>matchWxExport\<close>.\<close>

definition wxPattern :: regex where
  "wxPattern =
     \<lparr>atoms = map Byte ''mmexport'' @ [Byte (CHR ''1'')] @ replicate 9 Digit,
      groups = [(8, 10)]\<rparr>"

record Config =
  Source :: string
  Destination :: string
  Dry :: bool
  Rename :: bool
  NoSkip :: bool
  OverWrite :: bool
  Yes :: bool
  Together :: bool
  Mode :: string
  ConfigPath :: string

text \<open>\<open>ConfigPath\<close> exists in the second revision only; \<^verbatim>\<open>main.go\<close> never reads it.\<close>

subsection \<open>Path resolution\<close>

definition getTagString :: "string \<Rightarrow> string" where
  "getTagString tagString = Trim tagString [CHR 0x22]"

definition readExif :: "'w system \<Rightarrow> 'w \<Rightarrow> string \<Rightarrow> string" where
  "readExif sys w file =
     (case os_Open sys w file of
        Some err \<Rightarrow> []
      | None \<Rightarrow>
         (case exif_Decode sys w file of
            None \<Rightarrow> []
          | Some x \<Rightarrow>
             (case x ''Model'' of
                None \<Rightarrow> []
              | Some modelInfo \<Rightarrow>
                 (let model = getTagString modelInfo;
                      modelAlias = mapGet modelAliasMap model
                  in case x ''DateTimeOriginal'' of
                       None \<Rightarrow> []
                     | Some timeInfo \<Rightarrow>
                        (let tm = fst (Parse layout (getTagString timeInfo));
                             year = Format tm layoutYear;
                             month = Format tm layoutMonth;
                             fileBase = Base file
                         in Join [modelAlias, year, month, fileBase])))))"

text \<open>The second revision reads the alias from \<^verbatim>\<open>y.ModelMap\<close> and falls back to the model.\<close>

definition readExif_r2 :: "'w system \<Rightarrow> configFile \<Rightarrow> 'w \<Rightarrow> string \<Rightarrow> string" where
  "readExif_r2 sys y w file =
     (case os_Open sys w file of
        Some err \<Rightarrow> []
      | None \<Rightarrow>
         (case exif_Decode sys w file of
            None \<Rightarrow> []
          | Some exifData \<Rightarrow>
             (case exifData ''Model'' of
                None \<Rightarrow> []
              | Some modelInfo \<Rightarrow>
                 (let model = getTagString modelInfo;
                      modelAlias = mapGet (ModelMap y) model;
                      modelAlias = (if modelAlias = [] then model else modelAlias)
                  in case exifData ''DateTimeOriginal'' of
                       None \<Rightarrow> []
                     | Some timeInfo \<Rightarrow>
                        (let tm = fst (Parse layout (getTagString timeInfo));
                             year = Format tm layoutYear;
                             month = Format tm layoutMonth;
                             fileBase = Base file
                         in Join [modelAlias, year, month, fileBase])))))"

text \<open>Both revisions of \<^verbatim>\<open>matchWxExport\<close> compute the same function.\<close>

definition matchWxExport :: "'w system \<Rightarrow> string \<Rightarrow> string" where
  "matchWxExport sys filename =
     (let matches = FindStringSubmatch wxPattern filename
      in if length matches = 0 then []
         else
           let timestamp = matches ! 1;
               (timestampInt, err) = ParseInt timestamp
           in if err \<noteq> None then []
              else
                let timestampTime = Unix (time_Local sys) timestampInt;
                    year = Format timestampTime layoutYear;
                    month = Format timestampTime layoutMonth;
                    fileBase = Base filename
                in Join [year, month, fileBase])"

text \<open>
  The loop of \<^verbatim>\<open>matchRegex\<close> over the entries of \<^verbatim>\<open>regexTime\<close>, in the order in which
  the \<^verbatim>\<open>range\<close> statement delivers them.  Both revisions compute the same function.
\<close>

fun matchRegexLoop :: "(regex \<times> chunk list) list \<Rightarrow> string \<Rightarrow> string" where
  "matchRegexLoop [] file = []"
| "matchRegexLoop ((regexPattern, timeLayout) # rest) file =
     (let matches = FindStringSubmatch regexPattern file
      in if length matches > 0 then
           let match = matches ! 0;
               tm = fst (Parse timeLayout match);
               year = Format tm layoutYear;
               month = Format tm layoutMonth;
               fileBase = Base file
           in Join [year, month, fileBase]
         else matchRegexLoop rest file)"

definition matchRegex :: "'w system \<Rightarrow> 'w \<Rightarrow> string \<Rightarrow> string" where
  "matchRegex sys w file = matchRegexLoop (rangeRegexTime sys w) file"

definition processImage :: "'w system \<Rightarrow> 'w \<Rightarrow> string \<Rightarrow> string \<times> error" where
  "processImage sys w file =
     (let newPath = readExif sys w file
      in if newPath \<noteq> [] then (newPath, None)
         else
           let newPath = matchWxExport sys file
           in if newPath \<noteq> [] then (newPath, None)
              else
                let newPath = matchRegex sys w file
                in if newPath \<noteq> [] then (newPath, None)
                   else ([], Some ''failed to generate new file name''))"

definition processImage_r2 ::
  "'w system \<Rightarrow> configFile \<Rightarrow> 'w \<Rightarrow> string \<Rightarrow> string \<times> error" where
  "processImage_r2 sys y w file =
     (let newPath = readExif_r2 sys y w file
      in if newPath \<noteq> [] then (newPath, None)
         else
           let newPath = matchWxExport sys file
           in if newPath \<noteq> [] then (newPath, None)
              else
                let newPath = matchRegex sys w file
                in if newPath \<noteq> [] then (newPath, None)
                   else ([], Some (''failed to generate new file name for '' @ file)))"

subsection \<open>Conflict resolution\<close>

definition fileExists :: "'w system \<Rightarrow> 'w \<Rightarrow> string \<Rightarrow> bool" where
  "fileExists sys w path = (os_Stat sys w path = StatOk)"

text \<open>\<^verbatim>\<open>time.Now()\<close>, a time in the local zone.\<close>

definition Now :: "'w system \<Rightarrow> 'w \<Rightarrow> Time" where
  "Now sys w = civilOfSeconds (time_Now sys w + time_Local sys (time_Now sys w))"


definition getFileExtension_r2 :: "'w system \<Rightarrow> string \<Rightarrow> bool \<Rightarrow> string" where
  "getFileExtension_r2 sys path needDot =
     (let extension = Ext path;
          extension = (if \<not> needDot then TrimPrefix extension ''.'' else extension)
      in ToLower (unicode_ToLower sys) extension)"

definition generateNewFileName :: "'w system \<Rightarrow> 'w \<Rightarrow> string \<Rightarrow> string" where
  "generateNewFileName sys w filename =
     (let ext = Ext filename;
          name = TrimSuffix filename ext
      in name @ ''_new_'' @ Format (Now sys w) layoutStamp @ ext)"

definition generateNewFileName_r2 :: "'w system \<Rightarrow> 'w \<Rightarrow> string \<Rightarrow> string" where
  "generateNewFileName_r2 sys w filename =
     (let fileExtension = getFileExtension_r2 sys filename True;
          fileNameWithoutExtension = TrimSuffix filename fileExtension;
          currentTime = Format (Now sys w) layoutStamp;
          newFileName = fileNameWithoutExtension @ ''_new_'' @ currentTime @ fileExtension
      in newFileName)"

definition checkExist :: "'w system \<Rightarrow> Config \<Rightarrow> 'w \<Rightarrow> string \<Rightarrow> string \<times> error" where
  "checkExist sys c w dest =
     (if fileExists sys w dest then
        (if OverWrite c then (dest, None)
         else if \<not> NoSkip c then ([], Some (''skip file '' @ dest))
         else (generateNewFileName sys w dest, None))
      else (dest, None))"

definition checkExist_r2 :: "'w system \<Rightarrow> Config \<Rightarrow> 'w \<Rightarrow> string \<Rightarrow> string \<times> error" where
  "checkExist_r2 sys c w dest =
     (if fileExists sys w dest then
        (if OverWrite c then (dest, None)
         else if \<not> NoSkip c then ([], Some (''skip file '' @ dest))
         else (generateNewFileName_r2 sys w dest, None))
      else (dest, None))"

subsection \<open>Transfer\<close>

definition createParentDir :: "'w system \<Rightarrow> 'w \<Rightarrow> string \<Rightarrow> error \<times> 'w" where
  "createParentDir sys w path =
     (if os_Stat sys w path = StatNotExist then
        (case os_MkdirAll sys w path of
           (Some err, w') \<Rightarrow> (Some err, w')
         | (None, w') \<Rightarrow> (None, w'))
      else (None, w))"

definition createDestinationFile :: "'w system \<Rightarrow> 'w \<Rightarrow> string \<Rightarrow> string \<times> error \<times> 'w" where
  "createDestinationFile sys w dst =
     (let parentDir = Dir dst
      in case createParentDir sys w parentDir of
           (Some err, w') \<Rightarrow> ([], Some err, w')
         | (None, w') \<Rightarrow> (dst, None, w'))"

definition moveFile :: "'w system \<Rightarrow> 'w \<Rightarrow> string \<Rightarrow> string \<Rightarrow> error \<times> 'w" where
  "moveFile sys w src dst = os_Rename sys w src dst"

definition copyFile :: "'w system \<Rightarrow> 'w \<Rightarrow> string \<Rightarrow> string \<Rightarrow> error \<times> 'w" where
  "copyFile sys w src dst =
     (case os_Open sys w src of
        Some err \<Rightarrow> (Some (''error opening source file: '' @ err), w)
      | None \<Rightarrow>
         (case os_Create sys w dst of
            (Some err, w1) \<Rightarrow> (Some (''error creating destination file: '' @ err), w1)
          | (None, w1) \<Rightarrow>
             (case io_Copy sys w1 dst src of
                (Some err, w2) \<Rightarrow> (Some (''error copying file: '' @ err), w2)
              | (None, w2) \<Rightarrow>
                 (case file_Sync sys w2 dst of
                    (Some err, w3) \<Rightarrow> (Some (''error syncing destination file: '' @ err), w3)
                  | (None, w3) \<Rightarrow> (None, w3)))))"

text \<open>Both revisions of \<^verbatim>\<open>processOneFile\<close> make the same calls.\<close>

definition processOneFile ::
  "'w system \<Rightarrow> Config \<Rightarrow> 'w \<Rightarrow> string \<Rightarrow> string \<Rightarrow> error \<times> 'w" where
  "processOneFile sys c w source dest =
     (case createDestinationFile sys w dest of
        (d, Some err, w') \<Rightarrow> (Some err, w')
      | (d, None, w') \<Rightarrow>
          if Mode c = ''copy'' then copyFile sys w' source d
          else if Mode c = ''move'' then moveFile sys w' source d
          else (None, w'))"

subsection \<open>The batch driver\<close>

text \<open>
  The state of a run: the world; what standard input still holds, one element for
  each call of \<^verbatim>\<open>ReadString('\n')\<close> (a line with its newline, as a terminal delivers
  it; an element that does not end in a newline is the end of the input, where
  \<^verbatim>\<open>ReadString\<close> returns \<^verbatim>\<open>io.EOF\<close>); the messages written with \<^verbatim>\<open>log.Errorf\<close> and the
  final \<^verbatim>\<open>done\<close> message; and the variable \<^verbatim>\<open>todoMap\<close> of \<^verbatim>\<open>mediaTool\<close> (a Go map, kept
  as an association list with distinct keys).
\<close>

record 'w run =
  world :: 'w
  stdin :: "string list"
  logs :: "string list"
  todoMap :: "(string \<times> string) list"

definition logLine :: "'w run \<Rightarrow> string \<Rightarrow> 'w run" where
  "logLine st msg = st\<lparr>logs := logs st @ [msg]\<rparr>"

text \<open>
  \<^verbatim>\<open>askForConfirmation\<close> reads lines until one is a yes or a no; a read that fails
  (nothing left, or the input ends before a newline) ends the process in \<^verbatim>\<open>log.Fatal\<close>.
\<close>

fun askForConfirmation ::
  "'w system \<Rightarrow> string \<Rightarrow> string list \<Rightarrow> (bool \<times> string list) outcome" where
  "askForConfirmation sys s [] = Fatal"
| "askForConfirmation sys s (response # rest) =
     (if response = [] then Fatal
      else if last response \<noteq> CHR 0x0A then Fatal
      else
        let response = ToLower (unicode_ToLower sys) (TrimSpace (unicode_TrimSpace sys) response)
        in if response = ''y'' \<or> response = ''yes'' then Returns (True, rest)
           else if response = ''n'' \<or> response = ''no'' then Returns (False, rest)
           else askForConfirmation sys s rest)"









text \<open>
  The end of the loop body of \<^verbatim>\<open>mediaTool\<close> in \<^verbatim>\<open>main.go\<close>, reached when the plan is not
  collected: the transfer of one file, its error logged.
\<close>

definition transferNow :: "'w system \<Rightarrow> Config \<Rightarrow> string \<Rightarrow> string \<Rightarrow> 'w run \<Rightarrow> 'w run" where
  "transferNow sys c file newPath st =
     (case processOneFile sys c (world st) file newPath of
        (Some err, w') \<Rightarrow>
          logLine (st\<lparr>world := w'\<rparr>) (''error processing '' @ file @ '': '' @ err @ [CHR 0x0A])
      | (None, w') \<Rightarrow> st\<lparr>world := w'\<rparr>)"

text \<open>One iteration of the loop of \<^verbatim>\<open>mediaTool\<close> in \<^verbatim>\<open>main.go\<close>.\<close>

definition mediaToolStep ::
  "'w system \<Rightarrow> Config \<Rightarrow> string \<Rightarrow> 'w run \<Rightarrow> 'w run outcome" where
  "mediaToolStep sys c file st =
     (case processImage sys (world st) file of
        (newPath, Some err) \<Rightarrow>
          Returns (logLine st (''error generating new file '' @ file @ '': '' @ err))
      | (newPath, None) \<Rightarrow>
         (case checkExist sys c (world st) newPath of
            (newPath, Some err) \<Rightarrow>
              Returns (logLine st (''error checking exist '' @ newPath @ '': '' @ err))
          | (newPath, None) \<Rightarrow>
             (let hit = ''Are you sure you want to move '' @ file @ '' to '' @ newPath @ ''?'' @ [CHR 0x0A]
              in if Together c then
                   Returns (st\<lparr>todoMap :=
                     AList.update file (Join [Destination c, newPath]) (todoMap st)\<rparr>)
                 else if \<not> Yes c then
                   (case askForConfirmation sys hit (stdin st) of
                      Fatal \<Rightarrow> Fatal
                    | Panics \<Rightarrow> Panics
                    | Returns (ok, rest) \<Rightarrow>
                        if \<not> ok then Returns (st\<lparr>stdin := rest\<rparr>)
                        else Returns (transferNow sys c file newPath (st\<lparr>stdin := rest\<rparr>)))
                 else Returns (transferNow sys c file newPath st))))"

fun mediaToolLoop ::
  "'w system \<Rightarrow> Config \<Rightarrow> string list \<Rightarrow> 'w run \<Rightarrow> 'w run outcome" where
  "mediaToolLoop sys c [] st = Returns st"
| "mediaToolLoop sys c (file # files) st =
     (case mediaToolStep sys c file st of
        Returns st' \<Rightarrow> mediaToolLoop sys c files st'
      | Fatal \<Rightarrow> Fatal
      | Panics \<Rightarrow> Panics)"





definition transferNow_r2 ::
  "'w system \<Rightarrow> Config \<Rightarrow> string \<Rightarrow> string \<Rightarrow> 'w run \<Rightarrow> 'w run" where
  "transferNow_r2 sys c file newPath st =
     (case processOneFile sys c (world st) file newPath of
        (Some err, w') \<Rightarrow> st\<lparr>world := w'\<rparr>
      | (None, w') \<Rightarrow> st\<lparr>world := w'\<rparr>)"

definition mediaToolStep_r2 ::
  "'w system \<Rightarrow> Config \<Rightarrow> configFile \<Rightarrow> string \<Rightarrow> 'w run \<Rightarrow> 'w run outcome" where
  "mediaToolStep_r2 sys c y file st =
     (case processImage_r2 sys y (world st) file of
        (newPath, Some err) \<Rightarrow> Returns st
      | (newPath, None) \<Rightarrow>
         (case checkExist_r2 sys c (world st) newPath of
            (newPath, Some err) \<Rightarrow> Returns st
          | (newPath, None) \<Rightarrow>
             (let newPath = (if newPath \<noteq> [] then Join [Destination c, newPath] else newPath);
                  hit = ''Are you sure you want to '' @ Mode c @ [CHR 0x0A] @ file @ [CHR 0x0A]
                          @ ''-> '' @ newPath @ ''?'' @ [CHR 0x0A]
              in if Together c then
                   Returns (st\<lparr>todoMap := AList.update file newPath (todoMap st)\<rparr>)
                 else if \<not> Yes c then
                   (case askForConfirmation sys hit (stdin st) of
                      Fatal \<Rightarrow> Fatal
                    | Panics \<Rightarrow> Panics
                    | Returns (ok, rest) \<Rightarrow>
                        if \<not> ok then Returns (st\<lparr>stdin := rest\<rparr>)
                        else Returns (transferNow_r2 sys c file newPath (st\<lparr>stdin := rest\<rparr>)))
                 else Returns (transferNow_r2 sys c file newPath st))))"

fun mediaToolLoop_r2 ::
  "'w system \<Rightarrow> Config \<Rightarrow> configFile \<Rightarrow> string list \<Rightarrow> 'w run \<Rightarrow> 'w run outcome" where
  "mediaToolLoop_r2 sys c y [] st = Returns st"
| "mediaToolLoop_r2 sys c y (file # files) st =
     (case mediaToolStep_r2 sys c y file st of
        Returns st' \<Rightarrow> mediaToolLoop_r2 sys c y files st'
      | Fatal \<Rightarrow> Fatal
      | Panics \<Rightarrow> Panics)"


section \<open>Notions used to state the properties\<close>

text \<open>
  A path element that \<^verbatim>\<open>filepath.Clean\<close> keeps as it is: a non-empty name without a
  slash that is neither \<^verbatim>\<open>.\<close> nor \<^verbatim>\<open>..\<close>.  The base name of every file that a
  directory walk reports is one.
\<close>

definition plainElement :: "string \<Rightarrow> bool" where
  "plainElement e = (e \<noteq> [] \<and> e \<noteq> ''.'' \<and> e \<noteq> ''..'' \<and> CHR ''/'' \<notin> set e)"

text \<open>
  Metadata extraction succeeds on a file: it opens, its EXIF block decodes, and it
  has both the \<^verbatim>\<open>Model\<close> and the \<^verbatim>\<open>DateTimeOriginal\<close> tag.
\<close>

definition hasExif :: "'w system \<Rightarrow> 'w \<Rightarrow> string \<Rightarrow> bool" where
  "hasExif sys w file =
     (case os_Open sys w file of
        Some err \<Rightarrow> False
      | None \<Rightarrow>
         (case exif_Decode sys w file of
            None \<Rightarrow> False
          | Some x \<Rightarrow> x ''Model'' \<noteq> None \<and> x ''DateTimeOriginal'' \<noteq> None))"

text \<open>Some entry delivered by the \<^verbatim>\<open>range\<close> over \<^verbatim>\<open>regexTime\<close> matches the name.\<close>

definition someRegexMatches :: "(regex \<times> chunk list) list \<Rightarrow> string \<Rightarrow> bool" where
  "someRegexMatches entries file =
     list_ex (\<lambda>entry. FindStringSubmatch (fst entry) file \<noteq> []) entries"

text \<open>
  A small concrete system for examples.  The world is the list of the paths that
  exist; \<open>photos\<close> gives the EXIF tags of the files that have any, \<open>entries\<close> the order
  of the \<^verbatim>\<open>range\<close> over \<^verbatim>\<open>regexTime\<close>, \<open>walked\<close> the result of the directory walk.  The
  clock stands at 1700000000 (2023-11-14 22:13:20 UTC), the zone is UTC, and no
  operation fails except on a missing file.  The examples are ASCII, so the Unicode
  tables are never consulted.
\<close>

definition exampleSystem ::
  "(string \<times> (string \<times> string) list) list \<Rightarrow> (regex \<times> chunk list) list \<Rightarrow> walkEntry list
     \<Rightarrow> string list system" where
  "exampleSystem photos entries walked =
     \<lparr>os_Stat = (\<lambda>w p. if p \<in> set w then StatOk else StatNotExist),
      os_Open = (\<lambda>w p. if p \<in> set w then None else Some ''no such file or directory''),
      exif_Decode = (\<lambda>w p. case map_of photos p of
                               None \<Rightarrow> None
                             | Some tags \<Rightarrow> Some (map_of tags)),
      time_Now = (\<lambda>w. 1700000000),
      time_Local = (\<lambda>t. 0),
      rangeRegexTime = (\<lambda>w. entries),
      rangeMap = (\<lambda>w m. m),
      filepath_WalkDir = (\<lambda>w dir. walked),
      os_MkdirAll = (\<lambda>w p. (None, w)),
      os_Rename = (\<lambda>w src dst. (None, dst # removeAll src w)),
      os_Create = (\<lambda>w dst. (None, dst # w)),
      io_Copy = (\<lambda>w dst src. (None, w)),
      file_Sync = (\<lambda>w dst. (None, w)),
      os_ReadFile = (\<lambda>w p. ([], Some ''no such file or directory'')),
      yaml_Unmarshal = (\<lambda>text y. Some y),
      unicode_ToLower = (\<lambda>s. s),
      unicode_TrimSpace = (\<lambda>s. s)\<rparr>"

text \<open>A tag text as the EXIF decoder prints it: the value in double quotes.\<close>

definition quoted :: "string \<Rightarrow> string" where
  "quoted s = CHR 0x22 # s @ [CHR 0x22]"

definition exampleConfig :: Config where
  "exampleConfig =
     \<lparr>Source = ''in'', Destination = ''out'', Dry = False, Rename = False, NoSkip = False,
      OverWrite = False, Yes = True, Together = False, Mode = ''copy'', ConfigPath = []\<rparr>"

definition exampleRun :: "string list \<Rightarrow> string list run" where
  "exampleRun w = \<lparr>world = w, stdin = [], logs = [], todoMap = []\<rparr>"





text \<open>
  Examples: a photo \<^verbatim>\<open>in/img.jpg\<close> with the two tags, and a source directory with three
  images, of which \<^verbatim>\<open>notes.jpg\<close> has neither metadata nor a date in its name.
\<close>

definition examplePhoto :: "string \<Rightarrow> string \<Rightarrow> (string \<times> (string \<times> string) list) list" where
  "examplePhoto model taken =
     [(''in/img.jpg'', [(''Model'', quoted model), (''DateTimeOriginal'', quoted taken)])]"



section \<open>Properties\<close>

subsection \<open>Paths\<close>

lemma Clean_nonempty: "Clean p \<noteq> []"
  by (simp add: Clean_def Let_def)

lemma Join_empty_iff: "Join elem = [] \<longleftrightarrow> list_all (\<lambda>e. e = []) elem"
  by (auto simp: Join_def Let_def Clean_nonempty list_all_iff dropWhile_eq_Nil_conv)

lemma splitSep_noslash: "CHR ''/'' \<notin> set e \<Longrightarrow> splitSep e = [e]"
  by (induction e) (auto simp: IsPathSeparator_def)

lemma splitSep_append:
  "CHR ''/'' \<notin> set e \<Longrightarrow> splitSep (e @ CHR ''/'' # r) = e # splitSep r"
  by (induction e) (auto simp: IsPathSeparator_def)

lemma splitSep_joinSep:
  "es \<noteq> [] \<Longrightarrow> list_all (\<lambda>e. CHR ''/'' \<notin> set e) es \<Longrightarrow> splitSep (joinSep es) = es"
proof (induction es rule: joinSep.induct)
  case 1
  then show ?case by simp
next
  case (2 e)
  then show ?case by (simp add: splitSep_noslash)
next
  case (3 e v va)
  then show ?case by (simp add: splitSep_append)
qed

lemma cleanStep_plain: "plainElement e \<Longrightarrow> cleanStep rooted out e = out @ [e]"
  by (simp add: cleanStep_def plainElement_def)

lemma foldl_cleanStep_plain:
  "list_all plainElement es \<Longrightarrow> foldl (cleanStep rooted) out es = out @ es"
  by (induction es arbitrary: out) (simp_all add: cleanStep_plain)

lemma joinSep_hd:
  "es \<noteq> [] \<Longrightarrow> hd es \<noteq> [] \<Longrightarrow> joinSep es \<noteq> [] \<and> hd (joinSep es) = hd (hd es)"
  by (induction es rule: joinSep.induct) auto

lemma Clean_plain:
  assumes "es \<noteq> []" and "list_all plainElement es"
  shows "Clean (joinSep es) = joinSep es"
proof -
  have ns: "list_all (\<lambda>e. CHR ''/'' \<notin> set e) es"
    using assms(2) by (simp add: list_all_iff plainElement_def)
  have h: "hd es \<noteq> []" "CHR ''/'' \<notin> set (hd es)"
    using assms by (cases es; simp add: plainElement_def)+
  then have "hd (hd es) \<noteq> CHR ''/''"
    by (cases "hd es") auto
  with joinSep_hd [OF assms(1) h(1)]
  have j: "joinSep es \<noteq> []" "\<not> IsPathSeparator (hd (joinSep es))"
    by (simp_all add: IsPathSeparator_def)
  show ?thesis
    using j by (simp add: Clean_def Let_def splitSep_joinSep [OF assms(1) ns]
        foldl_cleanStep_plain [OF assms(2)])
qed

lemma Join_plain:
  assumes "list_all plainElement es" and "es \<noteq> []"
  shows "Join es = joinSep es"
proof -
  have "hd es \<noteq> []"
    using assms by (cases es; simp add: plainElement_def)
  then have "dropWhile (\<lambda>e. e = []) es = es"
    using assms(2) by (cases es) auto
  then show ?thesis
    using assms by (simp add: Join_def Clean_plain)
qed

lemma Join_plain_after_empty:
  assumes "list_all plainElement es" and "es \<noteq> []"
  shows "Join ([] # es) = joinSep es"
  using Join_plain [OF assms] by (simp add: Join_def)

subsection \<open>Numbers as text\<close>

lemma decimal_nonempty: "decimal n \<noteq> []"
  by (subst decimal.simps) simp

lemma isDigit_char_of: "(k::nat) < 10 \<Longrightarrow> isDigit (char_of (48 + k))"
  by (simp add: isDigit_def Let_def)

lemma decimal_digits: "list_all isDigit (decimal n)"
proof (induction n rule: decimal.induct)
  case (1 n)
  show ?case
  proof (cases "n < 10")
    case True
    then show ?thesis by (subst decimal.simps) (simp add: isDigit_char_of)
  next
    case False
    with 1 show ?thesis by (subst decimal.simps) (simp add: isDigit_char_of)
  qed
qed

lemma isDigit_not_special:
  "isDigit c \<Longrightarrow> c \<noteq> CHR ''/'' \<and> c \<noteq> CHR ''.''"
  by (auto simp: isDigit_def Let_def)

lemma appendInt_chars: "list_all (\<lambda>c. isDigit c \<or> c = CHR ''-'') (appendInt x width)"
proof -
  have "isDigit (CHR ''0'')" by (simp add: isDigit_def)
  moreover have "list_all (\<lambda>c. isDigit c \<or> c = CHR ''-'') (decimal (nat \<bar>x\<bar>))"
    using decimal_digits [of "nat \<bar>x\<bar>"] by (simp add: list_all_iff)
  ultimately show ?thesis
    by (auto simp: appendInt_def Let_def list_all_iff abs_if split: if_splits)
qed

lemma appendInt_nonempty: "appendInt x width \<noteq> []"
  by (simp add: appendInt_def Let_def decimal_nonempty)

lemma appendInt_plain: "plainElement (appendInt x width)"
proof -
  have c: "\<forall>c \<in> set (appendInt x width). c \<noteq> CHR ''/'' \<and> c \<noteq> CHR ''.''"
    using appendInt_chars [of x width] isDigit_not_special by (auto simp: list_all_iff)
  then have "CHR ''/'' \<notin> set (appendInt x width)" "CHR ''.'' \<notin> set (appendInt x width)"
    by auto
  moreover from this have "appendInt x width \<noteq> ''.''" "appendInt x width \<noteq> ''..''"
    by auto
  ultimately show ?thesis
    by (simp add: plainElement_def appendInt_nonempty)
qed

lemma Format_year_plain: "plainElement (Format t layoutYear)"
  by (simp add: Format_def layoutYear_def appendInt_plain)

lemma Format_month_plain: "plainElement (Format t layoutMonth)"
  by (simp add: Format_def layoutMonth_def appendInt_plain)

lemma Format_zero_year: "Format zeroTime layoutYear = ''0001''"
  by code_simp

lemma Format_zero_month: "Format zeroTime layoutMonth = ''01''"
  by code_simp

lemma Parse_error_zero: "snd (Parse lay v) \<noteq> None \<Longrightarrow> fst (Parse lay v) = zeroTime"
  by (auto simp: Parse_def split: option.splits prod.splits if_splits)

lemma plainElement_nonempty: "plainElement e \<Longrightarrow> e \<noteq> []"
  by (simp add: plainElement_def)

subsection \<open>Matching\<close>

lemma matchHere_length: "matchHere as s \<Longrightarrow> length as \<le> length s"
  by (induction as s rule: matchHere.induct) auto

lemma matchHere_take: "matchHere as s \<Longrightarrow> matchHere as (take (length as) s)"
  by (induction as s rule: matchHere.induct) auto

lemma findFirst_Some:
  "findFirst as s = Some m \<Longrightarrow> matchHere as m \<and> length m = length as"
proof (induction s)
  case Nil
  then show ?case by (cases as) (auto split: if_splits)
next
  case (Cons c cs)
  show ?case
  proof (cases "matchHere as (c # cs)")
    case True
    with Cons.prems have m: "m = take (length as) (c # cs)" by simp
    from True have "length as \<le> length (c # cs)" by (rule matchHere_length)
    with True m show ?thesis using matchHere_take [OF True] by simp
  next
    case False
    with Cons show ?thesis by simp
  qed
qed

lemma findFirst_None_iff_no_submatch:
  "(FindStringSubmatch re s = []) = (findFirst (atoms re) s = None)"
  by (simp add: FindStringSubmatch_def split: option.splits)

lemma matchHere_append_drop:
  "matchHere (as1 @ as2) s \<Longrightarrow> matchHere as2 (drop (length as1) s)"
proof (induction as1 arbitrary: s)
  case Nil
  then show ?case by simp
next
  case (Cons a as1)
  then show ?case by (cases s) auto
qed

lemma matchHere_Digits:
  "matchHere (replicate n Digit) s \<Longrightarrow> length s = n \<Longrightarrow> list_all isDigit s"
proof (induction n arbitrary: s)
  case 0
  then show ?case by simp
next
  case (Suc n)
  then show ?case by (cases s) auto
qed

lemma digitVal_range: "isDigit c \<Longrightarrow> 0 \<le> digitVal c \<and> digitVal c \<le> 9"
  by (auto simp: isDigit_def digitVal_def Let_def)

lemma decimalValue_snoc: "decimalValue (ds @ [c]) = 10 * decimalValue ds + digitVal c"
  by (simp add: decimalValue_def)

lemma decimalValue_bounds:
  "list_all isDigit ds \<Longrightarrow> 0 \<le> decimalValue ds \<and> decimalValue ds < 10 ^ length ds"
proof (induction ds rule: rev_induct)
  case Nil
  then show ?case by (simp add: decimalValue_def)
next
  case (snoc c ds)
  then have ih: "0 \<le> decimalValue ds" "decimalValue ds < 10 ^ length ds" by simp_all
  from snoc.prems have "0 \<le> digitVal c" "digitVal c \<le> 9"
    using digitVal_range [of c] by simp_all
  with ih show ?case
    by (simp add: decimalValue_snoc)
qed

lemma ParseInt_digits:
  assumes "ds \<noteq> []" and "list_all isDigit ds" and "length ds \<le> 18"
  shows "ParseInt ds = (decimalValue ds, None)"
proof -
  from assms(1,2) have "isDigit (hd ds)" by (cases ds) simp_all
  then have sign: "hd ds \<noteq> CHR ''-''" "hd ds \<noteq> CHR ''+''"
    by (auto simp: isDigit_def Let_def)
  have nd: "\<not> list_ex (\<lambda>c. \<not> isDigit c) ds"
    using assms(2) by (simp add: list_all_iff list_ex_iff)
  have "decimalValue ds < 10 ^ length ds" "0 \<le> decimalValue ds"
    using decimalValue_bounds [OF assms(2)] by simp_all
  moreover have "(10::int) ^ length ds \<le> 10 ^ 18"
    using assms(3) by (intro power_increasing) simp_all
  ultimately have b: "decimalValue ds < 2 ^ 63" "\<not> decimalValue ds < - (2 ^ 63)"
    by simp_all
  show ?thesis
    using assms(1) sign nd b by (simp add: ParseInt_def Let_def)
qed

lemma wx_match_shape:
  assumes "findFirst (atoms wxPattern) file = Some m"
  shows "FindStringSubmatch wxPattern file = [m, drop 8 m]
         \<and> length (drop 8 m) = 10 \<and> list_all isDigit (drop 8 m)"
proof -
  from findFirst_Some [OF assms]
  have mh: "matchHere (atoms wxPattern) m" and len: "length m = 18"
    by (simp_all add: wxPattern_def)
  have "matchHere (map Byte ''mmexport'' @ (Byte (CHR ''1'') # replicate 9 Digit)) m"
    using mh by (simp add: wxPattern_def)
  from matchHere_append_drop [OF this]
  have d: "matchHere (Byte (CHR ''1'') # replicate 9 Digit) (drop 8 m)"
    by (simp add: eval_nat_numeral)
  from len have l10: "length (drop 8 m) = 10" by simp
  then obtain c cs where cs: "drop 8 m = c # cs" "length cs = 9"
    by (cases "drop 8 m") auto
  with d have "c = CHR ''1''" "matchHere (replicate 9 Digit) cs" by simp_all
  with cs have "list_all isDigit (drop 8 m)"
    using matchHere_Digits [of 9 cs] by (simp add: isDigit_def)
  moreover have "take 10 (drop 8 m) = drop 8 m" using l10 by simp
  ultimately show ?thesis
    using assms l10 by (simp add: FindStringSubmatch_def wxPattern_def)
qed

lemma matchWxExport_match:
  assumes "findFirst (atoms wxPattern) file = Some m"
  shows "matchWxExport sys file =
           Join [Format (Unix (time_Local sys) (decimalValue (drop 8 m))) layoutYear,
                 Format (Unix (time_Local sys) (decimalValue (drop 8 m))) layoutMonth,
                 Base file]"
proof -
  from wx_match_shape [OF assms]
  have s: "FindStringSubmatch wxPattern file = [m, drop 8 m]"
    and l: "length (drop 8 m) = 10" and d: "list_all isDigit (drop 8 m)"
    by simp_all
  from l have "drop 8 m \<noteq> []" by auto
  from ParseInt_digits [OF this d] l
  have "ParseInt (drop 8 m) = (decimalValue (drop 8 m), None)" by simp
  then show ?thesis
    by (simp add: matchWxExport_def s Let_def)
qed

lemma matchWxExport_nomatch:
  "findFirst (atoms wxPattern) file = None \<Longrightarrow> matchWxExport sys file = []"
  by (simp add: matchWxExport_def FindStringSubmatch_def)

lemma Join_year_nonempty: "Join (a # Format t layoutYear # rest) \<noteq> []"
  using plainElement_nonempty [OF Format_year_plain [of t]]
  by (simp add: Join_empty_iff)

lemma Join_year_nonempty': "Join (Format t layoutYear # rest) \<noteq> []"
  using plainElement_nonempty [OF Format_year_plain [of t]]
  by (simp add: Join_empty_iff)

lemma matchWxExport_nonempty_iff:
  "(matchWxExport sys file \<noteq> []) = (FindStringSubmatch wxPattern file \<noteq> [])"
proof (cases "findFirst (atoms wxPattern) file")
  case None
  then show ?thesis
    by (simp add: matchWxExport_nomatch findFirst_None_iff_no_submatch)
next
  case (Some m)
  then show ?thesis
    by (simp add: matchWxExport_match Join_year_nonempty' findFirst_None_iff_no_submatch)
qed

lemma matchRegexLoop_nonempty_iff:
  "(matchRegexLoop entries file \<noteq> []) = someRegexMatches entries file"
proof (induction entries)
  case Nil
  then show ?case by (simp add: someRegexMatches_def)
next
  case (Cons e entries)
  obtain re lay where e: "e = (re, lay)" by (cases e)
  show ?case
  proof (cases "FindStringSubmatch re file = []")
    case True
    with Cons e show ?thesis by (simp add: someRegexMatches_def)
  next
    case False
    with e show ?thesis
      by (simp add: someRegexMatches_def Let_def Join_year_nonempty')
  qed
qed

lemma readExif_nonempty_iff: "(readExif sys w file \<noteq> []) = hasExif sys w file"
  by (auto simp: readExif_def hasExif_def Let_def Join_year_nonempty split: option.splits)

lemma readExif_r2_nonempty_iff: "(readExif_r2 sys y w file \<noteq> []) = hasExif sys w file"
  by (auto simp: readExif_r2_def hasExif_def Let_def Join_year_nonempty split: option.splits)

lemma findFirst_leftmost:
  assumes "matchHere as r" and "\<forall>i<length pre. \<not> matchHere as (drop i (pre @ r))"
  shows "findFirst as (pre @ r) = Some (take (length as) r)"
  using assms
proof (induction pre)
  case Nil
  then show ?case by (cases r) (auto dest: matchHere_length)
next
  case (Cons p pre)
  from Cons.prems(2) have "\<not> matchHere as (drop 0 ((p # pre) @ r))" by blast
  then have first: "\<not> matchHere as (p # pre @ r)" by simp
  have "\<forall>i<length pre. \<not> matchHere as (drop i (pre @ r))"
  proof (intro allI impI)
    fix i
    assume "i < length pre"
    then have "Suc i < length (p # pre)" by simp
    with Cons.prems(2) have "\<not> matchHere as (drop (Suc i) ((p # pre) @ r))" by blast
    then show "\<not> matchHere as (drop i (pre @ r))" by simp
  qed
  with Cons.IH Cons.prems(1) have "findFirst as (pre @ r) = Some (take (length as) r)"
    by simp
  with first show ?case by simp
qed

lemma matchHere_Bytes: "matchHere (map Byte s @ as) (s @ r) = matchHere as r"
  by (induction s) auto

lemma matchHere_Digits_intro:
  "list_all isDigit ds \<Longrightarrow> matchHere (replicate (length ds) Digit) (ds @ r)"
  by (induction ds) auto

lemma wx_matchHere:
  assumes "length ds = 10" and "hd ds = CHR ''1''" and "list_all isDigit ds"
  shows "matchHere (atoms wxPattern) (''mmexport'' @ ds @ post)"
proof -
  from assms(1) obtain d ds' where ds: "ds = d # ds'" "length ds' = 9"
    by (cases ds) auto
  with assms(2,3) have d: "d = CHR ''1''" and dig: "list_all isDigit ds'" by simp_all
  have "matchHere (replicate (length ds') Digit) (ds' @ post)"
    using dig by (rule matchHere_Digits_intro)
  then have "matchHere (Byte (CHR ''1'') # replicate 9 Digit) (ds @ post)"
    using ds d by simp
  then have "matchHere (map Byte ''mmexport'' @ (Byte (CHR ''1'') # replicate 9 Digit))
               (''mmexport'' @ (ds @ post))"
    by (simp only: matchHere_Bytes)
  then show ?thesis by (simp add: wxPattern_def)
qed

lemma matchRegexLoop_skip:
  "\<not> someRegexMatches before file \<Longrightarrow>
   matchRegexLoop (before @ rest) file = matchRegexLoop rest file"
proof (induction before)
  case Nil
  then show ?case by simp
next
  case (Cons e before)
  obtain re lay where e: "e = (re, lay)" by (cases e)
  with Cons show ?case by (simp add: someRegexMatches_def)
qed

subsection \<open>The loop body\<close>

lemma mediaToolStep_unresolved:
  "processImage sys (world st) file = (p, Some err) \<Longrightarrow>
   mediaToolStep sys c file st =
     Returns (logLine st (''error generating new file '' @ file @ '': '' @ err))"
  by (simp add: mediaToolStep_def)

lemma mediaToolStep_skip:
  "processImage sys (world st) file = (p, None) \<Longrightarrow>
   checkExist sys c (world st) p = (q, Some err) \<Longrightarrow>
   mediaToolStep sys c file st =
     Returns (logLine st (''error checking exist '' @ q @ '': '' @ err))"
  by (simp add: mediaToolStep_def)

lemma mediaToolStep_r2_unresolved:
  "processImage_r2 sys y (world st) file = (p, Some err) \<Longrightarrow>
   mediaToolStep_r2 sys c y file st = Returns st"
  by (simp add: mediaToolStep_r2_def)

lemma mediaToolStep_r2_skip:
  "processImage_r2 sys y (world st) file = (p, None) \<Longrightarrow>
   checkExist_r2 sys c (world st) p = (q, Some err) \<Longrightarrow>
   mediaToolStep_r2 sys c y file st = Returns st"
  by (simp add: mediaToolStep_r2_def)

lemma processImage_cases:
  "processImage sys w file =
     (if hasExif sys w file then (readExif sys w file, None)
      else if FindStringSubmatch wxPattern file \<noteq> [] then (matchWxExport sys file, None)
      else if someRegexMatches (rangeRegexTime sys w) file then (matchRegex sys w file, None)
      else ([], Some ''failed to generate new file name''))"
  using readExif_nonempty_iff [of sys w "file"] matchWxExport_nonempty_iff [of sys "file"]
    matchRegexLoop_nonempty_iff [of "rangeRegexTime sys w" "file"]
  by (simp add: processImage_def matchRegex_def Let_def)

lemma processImage_r2_cases:
  "processImage_r2 sys y w file =
     (if hasExif sys w file then (readExif_r2 sys y w file, None)
      else if FindStringSubmatch wxPattern file \<noteq> [] then (matchWxExport sys file, None)
      else if someRegexMatches (rangeRegexTime sys w) file then (matchRegex sys w file, None)
      else ([], Some (''failed to generate new file name for '' @ file)))"
  using readExif_r2_nonempty_iff [of sys y w "file"] matchWxExport_nonempty_iff [of sys "file"]
    matchRegexLoop_nonempty_iff [of "rangeRegexTime sys w" "file"]
  by (simp add: processImage_r2_def matchRegex_def Let_def)


































subsection \<open>The batch driver, case by case\<close>













































section \<open>The claims\<close>

text \<open>
  Claim C1: path resolution tries EXIF extraction, then the \<^verbatim>\<open>mmexport\<close> match, then
  the regex/layout match, and the first that succeeds decides the result;
  \<^verbatim>\<open>processImage\<close> returns an error and the empty path exactly when all three fail;
  and on that error the loop of \<^verbatim>\<open>mediaTool\<close> goes on with the next file.  Both
  revisions.
\<close>

theorem processImage_strategy_order:
  "processImage sys w file =
     (if hasExif sys w file then (readExif sys w file, None)
      else if FindStringSubmatch wxPattern file \<noteq> [] then (matchWxExport sys file, None)
      else if someRegexMatches (rangeRegexTime sys w) file then (matchRegex sys w file, None)
      else ([], Some ''failed to generate new file name''))
   \<and> processImage_r2 sys y w file =
     (if hasExif sys w file then (readExif_r2 sys y w file, None)
      else if FindStringSubmatch wxPattern file \<noteq> [] then (matchWxExport sys file, None)
      else if someRegexMatches (rangeRegexTime sys w) file then (matchRegex sys w file, None)
      else ([], Some (''failed to generate new file name for '' @ file)))
   \<and> (\<exists>err. processImage sys w file = ([], Some err))
       = (\<not> hasExif sys w file \<and> FindStringSubmatch wxPattern file = []
          \<and> \<not> someRegexMatches (rangeRegexTime sys w) file)
   \<and> (\<exists>err. processImage_r2 sys y w file = ([], Some err))
       = (\<not> hasExif sys w file \<and> FindStringSubmatch wxPattern file = []
          \<and> \<not> someRegexMatches (rangeRegexTime sys w) file)
   \<and> (snd (processImage sys (world st) file) \<noteq> None \<longrightarrow>
        mediaToolLoop sys c (file # files) st =
          mediaToolLoop sys c files
            (logLine st (''error generating new file '' @ file
                         @ '': failed to generate new file name'')))
   \<and> (snd (processImage_r2 sys y (world st) file) \<noteq> None \<longrightarrow>
        mediaToolLoop_r2 sys c y (file # files) st = mediaToolLoop_r2 sys c y files st)"
proof -
  have a: "(\<exists>err. processImage sys w file = ([], Some err))
       = (\<not> hasExif sys w file \<and> FindStringSubmatch wxPattern file = []
          \<and> \<not> someRegexMatches (rangeRegexTime sys w) file)"
    by (simp add: processImage_cases)
  have b: "(\<exists>err. processImage_r2 sys y w file = ([], Some err))
       = (\<not> hasExif sys w file \<and> FindStringSubmatch wxPattern file = []
          \<and> \<not> someRegexMatches (rangeRegexTime sys w) file)"
    by (simp add: processImage_r2_cases)
  have c: "mediaToolLoop sys c (file # files) st =
          mediaToolLoop sys c files
            (logLine st (''error generating new file '' @ file
                         @ '': failed to generate new file name''))"
    if "snd (processImage sys (world st) file) \<noteq> None"
  proof -
    from that have "processImage sys (world st) file
        = ([], Some ''failed to generate new file name'')"
      by (simp add: processImage_cases split: if_splits)
    from mediaToolStep_unresolved [OF this] show ?thesis by simp
  qed
  have d: "mediaToolLoop_r2 sys c y (file # files) st = mediaToolLoop_r2 sys c y files st"
    if "snd (processImage_r2 sys y (world st) file) \<noteq> None"
  proof -
    from that have "processImage_r2 sys y (world st) file
        = ([], Some (''failed to generate new file name for '' @ file))"
      by (simp add: processImage_r2_cases split: if_splits)
    from mediaToolStep_r2_unresolved [OF this] show ?thesis by simp
  qed
  show ?thesis
    using a b c d processImage_cases [of sys w "file"] processImage_r2_cases [of sys y w "file"]
    by blast
qed

theorem processImage_strategy_order_witness:
  "processImage (exampleSystem [] regexTime []) [] ''in/mmexport1234567890.jpg''
     = (''2009/02/mmexport1234567890.jpg'', None)
   \<and> snd (processImage (exampleSystem [] regexTime []) (world (exampleRun []))
            ''in/notes.jpg'') \<noteq> None
   \<and> mediaToolLoop (exampleSystem [] regexTime []) exampleConfig
        [''in/notes.jpg'', ''in/mmexport1234567890.jpg''] (exampleRun [])
      = mediaToolLoop (exampleSystem [] regexTime []) exampleConfig
          [''in/mmexport1234567890.jpg'']
          (logLine (exampleRun [])
             ''error generating new file in/notes.jpg: failed to generate new file name'')"
proof -
  have e: "processImage (exampleSystem [] regexTime []) [] ''in/mmexport1234567890.jpg''
     = (''2009/02/mmexport1234567890.jpg'', None)"
    by code_simp
  have h: "snd (processImage (exampleSystem [] regexTime []) (world (exampleRun []))
            ''in/notes.jpg'') \<noteq> None"
    by code_simp
  show ?thesis
    using e h
      processImage_strategy_order [of "exampleSystem [] regexTime []" "[]" "''in/notes.jpg''"
        "\<lparr>ModelMap = Map.empty\<rparr>" "exampleRun []" exampleConfig
        "[''in/mmexport1234567890.jpg'']"]
    by simp
qed

text \<open>
  Claim C2: the conflict matrix of \<^verbatim>\<open>checkExist\<close>.  A candidate that does not exist is
  returned unchanged whatever the flags; an existing one is returned unchanged when
  overwrite is set; an existing one with neither overwrite nor no-skip set is an
  error, on which the loop of \<^verbatim>\<open>mediaTool\<close> goes on with the next file.  Both revisions.
\<close>

theorem checkExist_conflict_matrix:
  "(\<not> fileExists sys w dest \<longrightarrow>
      checkExist sys c w dest = (dest, None) \<and> checkExist_r2 sys c w dest = (dest, None))
   \<and> (fileExists sys w dest \<and> OverWrite c \<longrightarrow>
      checkExist sys c w dest = (dest, None) \<and> checkExist_r2 sys c w dest = (dest, None))
   \<and> (fileExists sys w dest \<and> \<not> OverWrite c \<and> \<not> NoSkip c \<longrightarrow>
      checkExist sys c w dest = ([], Some (''skip file '' @ dest))
      \<and> checkExist_r2 sys c w dest = ([], Some (''skip file '' @ dest)))
   \<and> (processImage sys (world st) file = (cand, None) \<and> fileExists sys (world st) cand
        \<and> \<not> OverWrite c \<and> \<not> NoSkip c \<longrightarrow>
      mediaToolLoop sys c (file # files) st =
        mediaToolLoop sys c files
          (logLine st (''error checking exist : skip file '' @ cand)))
   \<and> (processImage_r2 sys y (world st) file = (cand, None) \<and> fileExists sys (world st) cand
        \<and> \<not> OverWrite c \<and> \<not> NoSkip c \<longrightarrow>
      mediaToolLoop_r2 sys c y (file # files) st = mediaToolLoop_r2 sys c y files st)"
proof -
  have l1: "mediaToolLoop sys c (file # files) st =
        mediaToolLoop sys c files
          (logLine st (''error checking exist : skip file '' @ cand))"
    if "processImage sys (world st) file = (cand, None)" "fileExists sys (world st) cand"
      "\<not> OverWrite c" "\<not> NoSkip c"
  proof -
    from that have "checkExist sys c (world st) cand = ([], Some (''skip file '' @ cand))"
      by (simp add: checkExist_def)
    from mediaToolStep_skip [OF that(1) this] show ?thesis by simp
  qed
  have l2: "mediaToolLoop_r2 sys c y (file # files) st = mediaToolLoop_r2 sys c y files st"
    if "processImage_r2 sys y (world st) file = (cand, None)" "fileExists sys (world st) cand"
      "\<not> OverWrite c" "\<not> NoSkip c"
  proof -
    from that have "checkExist_r2 sys c (world st) cand = ([], Some (''skip file '' @ cand))"
      by (simp add: checkExist_r2_def)
    from mediaToolStep_r2_skip [OF that(1) this] show ?thesis by simp
  qed
  show ?thesis
    using l1 l2 by (simp add: checkExist_def checkExist_r2_def)
qed

theorem checkExist_conflict_matrix_witness:
  "checkExist (exampleSystem [] regexTime []) exampleConfig
       [''2009/02/mmexport1234567890.jpg''] ''photos/2023/04/img.jpg''
     = (''photos/2023/04/img.jpg'', None)
   \<and> checkExist_r2 (exampleSystem [] regexTime []) (exampleConfig\<lparr>OverWrite := True\<rparr>)
       [''photos/2023/04/img.jpg''] ''photos/2023/04/img.jpg''
     = (''photos/2023/04/img.jpg'', None)
   \<and> checkExist (exampleSystem [] regexTime []) exampleConfig
       [''photos/2023/04/img.jpg''] ''photos/2023/04/img.jpg''
     = ([], Some ''skip file photos/2023/04/img.jpg'')
   \<and> mediaToolLoop (exampleSystem [] regexTime []) exampleConfig
        [''in/mmexport1234567890.jpg'', ''in/notes.jpg'']
        (exampleRun [''2009/02/mmexport1234567890.jpg''])
      = mediaToolLoop (exampleSystem [] regexTime []) exampleConfig [''in/notes.jpg'']
          (logLine (exampleRun [''2009/02/mmexport1234567890.jpg''])
             ''error checking exist : skip file 2009/02/mmexport1234567890.jpg'')"
proof -
  let ?S = "exampleSystem [] regexTime []"
  have n: "\<not> fileExists ?S [''2009/02/mmexport1234567890.jpg''] ''photos/2023/04/img.jpg''"
    by code_simp
  have e: "fileExists ?S [''photos/2023/04/img.jpg''] ''photos/2023/04/img.jpg''"
    by code_simp
  have o: "OverWrite (exampleConfig\<lparr>OverWrite := True\<rparr>)"
    "\<not> OverWrite exampleConfig" "\<not> NoSkip exampleConfig"
    by (simp_all add: exampleConfig_def)
  have p: "processImage ?S (world (exampleRun [''2009/02/mmexport1234567890.jpg'']))
      ''in/mmexport1234567890.jpg'' = (''2009/02/mmexport1234567890.jpg'', None)"
    by code_simp
  have f: "fileExists ?S (world (exampleRun [''2009/02/mmexport1234567890.jpg'']))
      ''2009/02/mmexport1234567890.jpg''"
    by code_simp
  show ?thesis
    using n e o p f
      checkExist_conflict_matrix [of ?S "[''2009/02/mmexport1234567890.jpg'']"
        "''photos/2023/04/img.jpg''" exampleConfig]
      checkExist_conflict_matrix [of ?S "[''photos/2023/04/img.jpg'']"
        "''photos/2023/04/img.jpg''" "exampleConfig\<lparr>OverWrite := True\<rparr>"]
      checkExist_conflict_matrix [of ?S "[''photos/2023/04/img.jpg'']"
        "''photos/2023/04/img.jpg''" exampleConfig
        "exampleRun [''2009/02/mmexport1234567890.jpg'']" "''in/mmexport1234567890.jpg''"
        "''2009/02/mmexport1234567890.jpg''" "[''in/notes.jpg'']"]
    by simp
qed

text \<open>
  Claim C3 (the code differs): in \<^verbatim>\<open>main.go\<close> a model that the alias map does not
  hold gives the empty alias, and the path collapses to year/month/base name; the
  second revision uses the model itself.  A photo of an \<^verbatim>\<open>iPhone 12\<close>:
\<close>

theorem readExif_unknown_model_drops_alias:
  "modelAliasMap ''iPhone 12'' = None
   \<and> readExif (exampleSystem (examplePhoto ''iPhone 12'' ''2023:04:05 10:11:12'') regexTime [])
        [''in/img.jpg''] ''in/img.jpg''
     = ''2023/04/img.jpg''
   \<and> readExif_r2 (exampleSystem (examplePhoto ''iPhone 12'' ''2023:04:05 10:11:12'') regexTime [])
        \<lparr>ModelMap = Map.empty\<rparr> [''in/img.jpg''] ''in/img.jpg''
     = ''iPhone 12/2023/04/img.jpg''"
  by code_simp

text \<open>
  Claim C4 (the code differs): a \<^verbatim>\<open>DateTimeOriginal\<close> that does not parse under
  \<^verbatim>\<open>2006:01:02 15:04:05\<close> does not make \<^verbatim>\<open>readExif\<close> fail: the error of \<^verbatim>\<open>time.Parse\<close> is
  dropped and the path is made from the zero time.  A tag written with dashes:
\<close>

theorem readExif_unparsable_time_gives_zero_time_path:
  "snd (Parse layout (getTagString (quoted ''2023-04-05 10:11:12''))) \<noteq> None
   \<and> readExif (exampleSystem (examplePhoto ''2304FPN6DC'' ''2023-04-05 10:11:12'') regexTime [])
        [''in/img.jpg''] ''in/img.jpg''
     = ''Xiaomi13Ultra/0001/01/img.jpg''
   \<and> readExif_r2 (exampleSystem (examplePhoto ''2304FPN6DC'' ''2023-04-05 10:11:12'') regexTime [])
        \<lparr>ModelMap = Map.empty\<rparr> [''in/img.jpg''] ''in/img.jpg''
     = ''2304FPN6DC/0001/01/img.jpg''"
  by code_simp

text \<open>
  Claim C5 (the code differs): the second revision takes the extension in lower case,
  so a name with an upper-case extension keeps it in the stem and gets the lower-case
  one appended; \<^verbatim>\<open>main.go\<close> renames as the claim says.  An existing
  \<^verbatim>\<open>2023/04/IMG.JPG\<close>, no-skip set, at 2023-11-14 22:13:20:
\<close>

theorem rename_of_upper_case_extension:
  "checkExist_r2 (exampleSystem [] regexTime []) (exampleConfig\<lparr>NoSkip := True\<rparr>)
        [''2023/04/IMG.JPG''] ''2023/04/IMG.JPG''
     = (''2023/04/IMG.JPG_new_20231114221320.jpg'', None)
   \<and> checkExist (exampleSystem [] regexTime []) (exampleConfig\<lparr>NoSkip := True\<rparr>)
        [''2023/04/IMG.JPG''] ''2023/04/IMG.JPG''
     = (''2023/04/IMG_new_20231114221320.JPG'', None)"
  by code_simp

text \<open>
  Claim C6: when metadata extraction fails and the name contains \<^verbatim>\<open>mmexport\<close> followed
  by ten digits of which the first is 1 (anywhere in the name; the leftmost such
  place counts), the file resolves to year/month/base name, where year and month are
  those of the ten digits read as seconds since 1970 in the local zone; the path has
  these three elements and no alias.  Both revisions.
\<close>

theorem mmexport_resolves_by_epoch:
  assumes name: "file = pre @ ''mmexport'' @ ds @ post"
    and digits: "length ds = 10" "hd ds = CHR ''1''" "list_all isDigit ds"
    and leftmost: "\<forall>i<length pre. \<not> matchHere (atoms wxPattern) (drop i file)"
    and base: "plainElement (Base file)"
    and noexif: "\<not> hasExif sys w file"
  shows "processImage sys w file =
           (Format (Unix (time_Local sys) (decimalValue ds)) layoutYear @ ''/''
              @ Format (Unix (time_Local sys) (decimalValue ds)) layoutMonth @ ''/''
              @ Base file, None)
       \<and> processImage_r2 sys y w file = processImage sys w file
       \<and> splitSep (fst (processImage sys w file)) =
           [Format (Unix (time_Local sys) (decimalValue ds)) layoutYear,
            Format (Unix (time_Local sys) (decimalValue ds)) layoutMonth,
            Base file]"
proof -
  let ?t = "Unix (time_Local sys) (decimalValue ds)"
  let ?es = "[Format ?t layoutYear, Format ?t layoutMonth, Base file]"
  have mh: "matchHere (atoms wxPattern) (''mmexport'' @ ds @ post)"
    using digits by (rule wx_matchHere)
  have "findFirst (atoms wxPattern) (pre @ (''mmexport'' @ ds @ post))
          = Some (take (length (atoms wxPattern)) (''mmexport'' @ ds @ post))"
    using mh leftmost unfolding name by (rule findFirst_leftmost)
  moreover have "take (length (atoms wxPattern)) (''mmexport'' @ ds @ post) = ''mmexport'' @ ds"
    using digits(1) by (simp add: wxPattern_def)
  ultimately have ff: "findFirst (atoms wxPattern) file = Some (''mmexport'' @ ds)"
    by (simp add: name)
  have wx: "matchWxExport sys file = Join ?es"
    using matchWxExport_match [OF ff, of sys] by simp
  have pl: "list_all plainElement ?es"
    by (simp add: Format_year_plain Format_month_plain base)
  have j: "Join ?es = joinSep ?es"
    using pl by (rule Join_plain) simp
  have sub: "FindStringSubmatch wxPattern file \<noteq> []"
    using ff by (simp add: FindStringSubmatch_def)
  have p1: "processImage sys w file = (joinSep ?es, None)"
    using noexif sub wx j by (simp add: processImage_cases)
  have p2: "processImage_r2 sys y w file = (joinSep ?es, None)"
    using noexif sub wx j by (simp add: processImage_r2_cases)
  have sp: "splitSep (joinSep ?es) = ?es"
    using pl by (intro splitSep_joinSep) (simp_all add: plainElement_def)
  show ?thesis
    using p1 p2 sp by simp
qed

theorem mmexport_resolves_by_epoch_witness:
  "processImage (exampleSystem [] regexTime []) [] ''in/wx_mmexport1234567890_1.jpg''
     = (''2009/02/wx_mmexport1234567890_1.jpg'', None)
   \<and> processImage_r2 (exampleSystem [] regexTime []) \<lparr>ModelMap = Map.empty\<rparr> []
         ''in/wx_mmexport1234567890_1.jpg''
     = (''2009/02/wx_mmexport1234567890_1.jpg'', None)"
proof -
  let ?S = "exampleSystem [] regexTime []"
  let ?f = "''in/wx_mmexport1234567890_1.jpg''"
  have name: "?f = ''in/wx_'' @ ''mmexport'' @ ''1234567890'' @ ''_1.jpg''" by simp
  have digits: "length ''1234567890'' = 10" "hd ''1234567890'' = CHR ''1''"
    "list_all isDigit ''1234567890''"
    by (simp_all add: isDigit_def)
  have "\<not> matchHere (atoms wxPattern) (drop i ?f)" if "i < 6" for i
  proof -
    from that have "i = 0 \<or> i = 1 \<or> i = 2 \<or> i = 3 \<or> i = 4 \<or> i = 5" by arith
    then show ?thesis by (auto simp: wxPattern_def)
  qed
  then have leftmost: "\<forall>i<length ''in/wx_''. \<not> matchHere (atoms wxPattern) (drop i ?f)"
    by simp
  have base: "plainElement (Base ?f)" by code_simp
  have noexif: "\<not> hasExif ?S [] ?f" by code_simp
  have y: "Format (Unix (time_Local ?S) (decimalValue ''1234567890'')) layoutYear = ''2009''"
    by code_simp
  have m: "Format (Unix (time_Local ?S) (decimalValue ''1234567890'')) layoutMonth = ''02''"
    by code_simp
  have b: "Base ?f = ''wx_mmexport1234567890_1.jpg''" by code_simp
  from mmexport_resolves_by_epoch [OF name digits leftmost base noexif,
      of "\<lparr>ModelMap = Map.empty\<rparr>"]
  show ?thesis
    unfolding y m b by simp
qed

text \<open>
  Claim C7 (the code differs): \<^verbatim>\<open>matchRegex\<close> ranges over a Go map, so the entry it
  tries first is not fixed; a name that both patterns match resolves differently
  under the two possible orders.  The same file, the same configuration:
\<close>

theorem matchRegex_result_depends_on_range_order:
  "set (rev regexTime) = set regexTime
   \<and> processImage (exampleSystem [] regexTime []) []
        ''in/2021-01-02 03.04.05/IMG_20230405_101112.jpg''
     = (''2023/04/IMG_20230405_101112.jpg'', None)
   \<and> processImage (exampleSystem [] (rev regexTime) []) []
        ''in/2021-01-02 03.04.05/IMG_20230405_101112.jpg''
     = (''2021/01/IMG_20230405_101112.jpg'', None)
   \<and> processImage_r2 (exampleSystem [] regexTime []) \<lparr>ModelMap = Map.empty\<rparr> []
        ''in/2021-01-02 03.04.05/IMG_20230405_101112.jpg''
     = (''2023/04/IMG_20230405_101112.jpg'', None)
   \<and> processImage_r2 (exampleSystem [] (rev regexTime) []) \<lparr>ModelMap = Map.empty\<rparr> []
        ''in/2021-01-02 03.04.05/IMG_20230405_101112.jpg''
     = (''2021/01/IMG_20230405_101112.jpg'', None)"
proof -
  have "set (rev regexTime) = set regexTime" by simp
  moreover have "processImage (exampleSystem [] regexTime []) []
        ''in/2021-01-02 03.04.05/IMG_20230405_101112.jpg''
     = (''2023/04/IMG_20230405_101112.jpg'', None)"
    by code_simp
  moreover have "processImage (exampleSystem [] (rev regexTime) []) []
        ''in/2021-01-02 03.04.05/IMG_20230405_101112.jpg''
     = (''2021/01/IMG_20230405_101112.jpg'', None)"
    by code_simp
  moreover have "processImage_r2 (exampleSystem [] regexTime []) \<lparr>ModelMap = Map.empty\<rparr> []
        ''in/2021-01-02 03.04.05/IMG_20230405_101112.jpg''
     = (''2023/04/IMG_20230405_101112.jpg'', None)"
    by code_simp
  moreover have "processImage_r2 (exampleSystem [] (rev regexTime) []) \<lparr>ModelMap = Map.empty\<rparr> []
        ''in/2021-01-02 03.04.05/IMG_20230405_101112.jpg''
     = (''2021/01/IMG_20230405_101112.jpg'', None)"
    by code_simp
  ultimately show ?thesis by blast
qed

text \<open>
  Claim C8 (amended): for every order in which the \<^verbatim>\<open>range\<close> over \<^verbatim>\<open>regexTime\<close>
  delivers its entries, when the first delivered entry whose pattern matches the
  name has a match that does not parse under its layout, \<^verbatim>\<open>matchRegex\<close> returns the
  path made from the zero time, year \<^verbatim>\<open>0001\<close> and month \<^verbatim>\<open>01\<close>; it does not go on to
  the entries after it.  Both revisions.  (As stated, for any pattern that matches,
  the claim fails when an entry delivered earlier matches too: see the theorem after
  the witness.)
\<close>

theorem matchRegex_parse_failure_zero_time:
  assumes order: "rangeRegexTime sys w = before @ (re, lay) # after"
    and earlier: "\<not> someRegexMatches before file"
    and matched: "findFirst (atoms re) file = Some m"
    and bad: "snd (Parse lay m) \<noteq> None"
  shows "matchRegex sys w file = Join [''0001'', ''01'', Base file]
       \<and> matchRegex sys w file \<noteq> []
       \<and> (plainElement (Base file) \<longrightarrow> matchRegex sys w file = ''0001/01/'' @ Base file)"
proof -
  have sub: "FindStringSubmatch re file = m # map (\<lambda>(i, n). take n (drop i m)) (groups re)"
    using matched by (simp add: FindStringSubmatch_def)
  have z: "fst (Parse lay m) = zeroTime"
    using bad by (rule Parse_error_zero)
  have "matchRegex sys w file = matchRegexLoop ((re, lay) # after) file"
    using matchRegexLoop_skip [OF earlier] by (simp add: matchRegex_def order)
  also have "\<dots> = Join [''0001'', ''01'', Base file]"
    by (simp add: sub Let_def z Format_zero_year Format_zero_month)
  finally have r: "matchRegex sys w file = Join [''0001'', ''01'', Base file]" .
  have ne: "Join [''0001'', ''01'', Base file] \<noteq> []"
    by (simp add: Join_empty_iff)
  have pl: "Join [''0001'', ''01'', Base file] = ''0001/01/'' @ Base file"
    if "plainElement (Base file)"
  proof -
    have "list_all plainElement [''0001'', ''01'', Base file]"
      using that by (simp add: plainElement_def)
    from Join_plain [OF this] show ?thesis by simp
  qed
  show ?thesis
    using r ne pl by simp
qed

theorem matchRegex_parse_failure_zero_time_witness:
  "matchRegex (exampleSystem [] regexTime []) []
      ''in/2021-01-02 03.04.05/IMG_20231345_101112.jpg''
     = ''0001/01/IMG_20231345_101112.jpg''
   \<and> fst (Parse layoutDashed ''2021-01-02 03.04.05'')
     = \<lparr>Year = 2021, Month = 1, Day = 2, Hour = 3, Minute = 4, Second = 5\<rparr>"
proof -
  let ?S = "exampleSystem [] regexTime []"
  let ?f = "''in/2021-01-02 03.04.05/IMG_20231345_101112.jpg''"
  have order: "rangeRegexTime ?S [] = [] @ (regexUnderscore, layoutUnderscore)
                 # [(regexDashed, layoutDashed)]"
    by (simp add: exampleSystem_def regexTime_def)
  have earlier: "\<not> someRegexMatches [] ?f"
    by (simp add: someRegexMatches_def)
  have matched: "findFirst (atoms regexUnderscore) ?f = Some ''20231345_101112''"
    by code_simp
  have bad: "snd (Parse layoutUnderscore ''20231345_101112'') \<noteq> None"
    by code_simp
  have base: "plainElement (Base ?f)" by code_simp
  have b: "Base ?f = ''IMG_20231345_101112.jpg''" by code_simp
  have other: "fst (Parse layoutDashed ''2021-01-02 03.04.05'')
     = \<lparr>Year = 2021, Month = 1, Day = 2, Hour = 3, Minute = 4, Second = 5\<rparr>"
    by code_simp
  from matchRegex_parse_failure_zero_time [OF order earlier matched bad]
  have "plainElement (Base ?f) \<longrightarrow> matchRegex ?S [] ?f = ''0001/01/'' @ Base ?f"
    by blast
  with base have "matchRegex ?S [] ?f = ''0001/01/'' @ Base ?f" by blast
  then show ?thesis
    unfolding b using other by simp
qed

text \<open>
  The claim C8 as stated, without the condition on the order: the underscore pattern
  matches the name below and its match does not parse (month 13), yet with the dashed
  entry delivered first \<^verbatim>\<open>matchRegex\<close> returns the path of the directory's date.
\<close>

theorem matchRegex_parse_failure_later_entry:
  "(regexUnderscore, layoutUnderscore) \<in> set (rangeRegexTime (exampleSystem [] (rev regexTime) []) [])
   \<and> findFirst (atoms regexUnderscore) ''in/2021-01-02 03.04.05/IMG_20231345_101112.jpg''
       = Some ''20231345_101112''
   \<and> snd (Parse layoutUnderscore ''20231345_101112'') \<noteq> None
   \<and> matchRegex (exampleSystem [] (rev regexTime) []) []
         ''in/2021-01-02 03.04.05/IMG_20231345_101112.jpg''
       = ''2021/01/IMG_20231345_101112.jpg''
   \<and> matchRegex (exampleSystem [] (rev regexTime) []) []
         ''in/2021-01-02 03.04.05/IMG_20231345_101112.jpg''
       \<noteq> Join [''0001'', ''01'', Base ''in/2021-01-02 03.04.05/IMG_20231345_101112.jpg'']"
  by code_simp




text \<open>
  Claim C10: \<^verbatim>\<open>processImage\<close> returns an error exactly when the path it returns is
  empty, in both revisions; so it never returns a non-empty path together with an
  error, nor an empty path without one.
\<close>

theorem processImage_error_iff_empty_path:
  "(snd (processImage sys w file) \<noteq> None) = (fst (processImage sys w file) = [])
   \<and> (snd (processImage_r2 sys y w file) \<noteq> None) = (fst (processImage_r2 sys y w file) = [])"
  by (simp add: processImage_def processImage_r2_def Let_def)

theorem processImage_error_iff_empty_path_witness:
  "snd (processImage (exampleSystem [] regexTime []) [] ''in/notes.jpg'') \<noteq> None
   \<and> fst (processImage (exampleSystem [] regexTime []) [] ''in/notes.jpg'') = []
   \<and> snd (processImage_r2 (exampleSystem [] regexTime []) \<lparr>ModelMap = Map.empty\<rparr> []
            ''in/mmexport1234567890.jpg'') = None
   \<and> fst (processImage_r2 (exampleSystem [] regexTime []) \<lparr>ModelMap = Map.empty\<rparr> []
            ''in/mmexport1234567890.jpg'') \<noteq> []"
proof -
  have a: "fst (processImage (exampleSystem [] regexTime []) [] ''in/notes.jpg'') = []"
    by code_simp
  have b: "snd (processImage_r2 (exampleSystem [] regexTime []) \<lparr>ModelMap = Map.empty\<rparr> []
            ''in/mmexport1234567890.jpg'') = None"
    by code_simp
  show ?thesis
    using a b
      processImage_error_iff_empty_path [of "exampleSystem [] regexTime []" "[]"
        "''in/notes.jpg''" "\<lparr>ModelMap = Map.empty\<rparr>"]
      processImage_error_iff_empty_path [of "exampleSystem [] regexTime []" "[]"
        "''in/mmexport1234567890.jpg''" "\<lparr>ModelMap = Map.empty\<rparr>"]
    by simp
qed

end
